theory Spec2Isabelle
  imports Complex_Main
begin

section \<open>JavaScript values\<close>

text \<open>
  The handlers of \<^verbatim>\<open>routes/products.js\<close> and of the cart router read untyped fields of
  \<^verbatim>\<open>req.body\<close> and \<^verbatim>\<open>req.query\<close> and decide on their truthiness, on
  \<^verbatim>\<open>!== undefined\<close> and on \<^verbatim>\<open>Number(...)\<close>. The model keeps these values untyped.

  A JavaScript number is modelled as an exact rational or one of \<^verbatim>\<open>NaN\<close>,
  \<^verbatim>\<open>Infinity\<close>, \<^verbatim>\<open>-Infinity\<close>. The rounding of IEEE doubles and the sign of zero
  are not modelled: the model and the program agree wherever every number involved is
  exactly representable (integers below \<open>2^53\<close> in particular). A field of a request is
  a scalar: absent (\<^verbatim>\<open>undefined\<close>), \<^verbatim>\<open>null\<close>, a boolean, a number or a string;
  arrays and nested objects are not modelled. Strings are byte strings.
\<close>

datatype jsnum = NaN | Fin rat | PosInf | NegInf

datatype jsval = JUndefined | JNull | JBool bool | JNum jsnum | JStr string

text \<open>\<^verbatim>\<open>ToBoolean\<close>: what \<^verbatim>\<open>!v\<close>, \<^verbatim>\<open>v || w\<close>, \<^verbatim>\<open>v && w\<close> and \<^verbatim>\<open>Boolean(v)\<close> test.\<close>

fun truthy :: "jsval \<Rightarrow> bool" where
  "truthy JUndefined = False"
| "truthy JNull = False"
| "truthy (JBool b) = b"
| "truthy (JNum n) = (n \<noteq> NaN \<and> n \<noteq> Fin 0)"
| "truthy (JStr s) = (s \<noteq> [])"

subsection \<open>Strings to numbers\<close>

text \<open>
  \<^verbatim>\<open>Number(s)\<close> on a string (ECMAScript \<^verbatim>\<open>StringToNumber\<close>): white space is trimmed, the
  empty string is \<open>0\<close>, then either a signed decimal literal (digits, an optional
  fraction, an optional exponent, or \<^verbatim>\<open>Infinity\<close>) or an unsigned \<^verbatim>\<open>0x\<close>, \<^verbatim>\<open>0o\<close>,
  \<^verbatim>\<open>0b\<close> literal; everything else is \<^verbatim>\<open>NaN\<close>. Only ASCII white space is trimmed.
\<close>

definition is_space :: "char \<Rightarrow> bool" where
  "is_space c \<longleftrightarrow> c \<in> set [CHR 0x09, CHR 0x0A, CHR 0x0B, CHR 0x0C, CHR 0x0D, CHR 0x20]"

definition trim :: "string \<Rightarrow> string" where
  "trim s = rev (dropWhile is_space (rev (dropWhile is_space s)))"

definition digit_value :: "char \<Rightarrow> nat option" where
  "digit_value c =
     (let n = (of_char c :: nat) in
      if 48 \<le> n \<and> n \<le> 57 then Some (n - 48)
      else if 97 \<le> n \<and> n \<le> 102 then Some (n - 87)
      else if 65 \<le> n \<and> n \<le> 70 then Some (n - 55)
      else None)"

definition is_digit :: "nat \<Rightarrow> char \<Rightarrow> bool" where
  "is_digit b c = (case digit_value c of None \<Rightarrow> False | Some d \<Rightarrow> d < b)"

text \<open>The value of a string of digits in base \<open>b\<close>, most significant digit first.\<close>

definition digits_value :: "nat \<Rightarrow> string \<Rightarrow> nat" where
  "digits_value b s = foldl (\<lambda>acc c. acc * b + (case digit_value c of None \<Rightarrow> 0 | Some d \<Rightarrow> d)) 0 s"

definition radix_literal :: "nat \<Rightarrow> string \<Rightarrow> jsnum" where
  "radix_literal b s =
     (if s \<noteq> [] \<and> list_all (is_digit b) s then Fin (of_nat (digits_value b s)) else NaN)"

text \<open>The exponent part after the mantissa: empty, or \<^verbatim>\<open>e\<close>/\<^verbatim>\<open>E\<close>, an optional sign, digits.\<close>

definition exponent_part :: "string \<Rightarrow> int option" where
  "exponent_part s =
     (case s of
        [] \<Rightarrow> Some 0
      | c # t \<Rightarrow>
          if c = CHR ''e'' \<or> c = CHR ''E'' then
            (let (neg, ds) = (case t of
                                d # u \<Rightarrow> if d = CHR ''-'' then (True, u)
                                         else if d = CHR ''+'' then (False, u) else (False, t)
                              | [] \<Rightarrow> (False, t))
             in if ds \<noteq> [] \<and> list_all (is_digit 10) ds
                then Some (if neg then - int (digits_value 10 ds) else int (digits_value 10 ds))
                else None)
          else None)"

definition scale10 :: "rat \<Rightarrow> int \<Rightarrow> rat" where
  "scale10 m e = (if 0 \<le> e then m * 10 ^ nat e else m / 10 ^ nat (- e))"

definition unsigned_decimal :: "string \<Rightarrow> jsnum" where
  "unsigned_decimal s =
     (if s = ''Infinity'' then PosInf
      else
        let ip = takeWhile (is_digit 10) s;
            r1 = dropWhile (is_digit 10) s;
            (dot, fp, r2) = (case r1 of
                               c # t \<Rightarrow> if c = CHR ''.''
                                        then (True, takeWhile (is_digit 10) t, dropWhile (is_digit 10) t)
                                        else (False, [], r1)
                             | [] \<Rightarrow> (False, [], r1))
        in if ip = [] \<and> fp = [] then NaN
           else (case exponent_part r2 of
                   None \<Rightarrow> NaN
                 | Some e \<Rightarrow>
                     Fin (scale10 (of_nat (digits_value 10 ip)
                                   + of_nat (digits_value 10 fp) / 10 ^ length fp) e)))"

fun js_neg :: "jsnum \<Rightarrow> jsnum" where
  "js_neg NaN = NaN"
| "js_neg (Fin a) = Fin (- a)"
| "js_neg PosInf = NegInf"
| "js_neg NegInf = PosInf"

definition string_to_number :: "string \<Rightarrow> jsnum" where
  "string_to_number s =
     (let t = trim s in
      case t of
        [] \<Rightarrow> Fin 0
      | c # u \<Rightarrow>
          if c = CHR ''-'' then js_neg (unsigned_decimal u)
          else if c = CHR ''+'' then unsigned_decimal u
          else if c = CHR ''0'' \<and> u \<noteq> [] \<and> hd u \<in> set ''xX'' then radix_literal 16 (tl u)
          else if c = CHR ''0'' \<and> u \<noteq> [] \<and> hd u \<in> set ''oO'' then radix_literal 8 (tl u)
          else if c = CHR ''0'' \<and> u \<noteq> [] \<and> hd u \<in> set ''bB'' then radix_literal 2 (tl u)
          else unsigned_decimal t)"

text \<open>A destructuring default, \<^verbatim>\<open>const { x = d } = obj\<close>: it applies to \<^verbatim>\<open>undefined\<close> only.\<close>

definition default_to :: "jsval \<Rightarrow> jsval \<Rightarrow> jsval" where
  "default_to d v = (if v = JUndefined then d else v)"

text \<open>\<^verbatim>\<open>Number(v)\<close>, which is also the coercion that \<^verbatim>\<open><\<close> applies to its operands.\<close>

fun to_number :: "jsval \<Rightarrow> jsnum" where
  "to_number JUndefined = NaN"
| "to_number JNull = Fin 0"
| "to_number (JBool b) = Fin (if b then 1 else 0)"
| "to_number (JNum n) = n"
| "to_number (JStr s) = string_to_number s"

subsection \<open>Arithmetic and comparison\<close>

fun js_lt :: "jsnum \<Rightarrow> jsnum \<Rightarrow> bool" where
  "js_lt NaN _ = False"
| "js_lt _ NaN = False"
| "js_lt (Fin a) (Fin b) = (a < b)"
| "js_lt (Fin a) PosInf = True"
| "js_lt (Fin a) NegInf = False"
| "js_lt PosInf _ = False"
| "js_lt NegInf NegInf = False"
| "js_lt NegInf _ = True"

fun js_le :: "jsnum \<Rightarrow> jsnum \<Rightarrow> bool" where
  "js_le NaN _ = False"
| "js_le _ NaN = False"
| "js_le a b = (\<not> js_lt b a)"

fun js_add :: "jsnum \<Rightarrow> jsnum \<Rightarrow> jsnum" where
  "js_add NaN _ = NaN"
| "js_add _ NaN = NaN"
| "js_add (Fin a) (Fin b) = Fin (a + b)"
| "js_add (Fin a) b = b"
| "js_add a (Fin b) = a"
| "js_add PosInf PosInf = PosInf"
| "js_add NegInf NegInf = NegInf"
| "js_add PosInf NegInf = NaN"
| "js_add NegInf PosInf = NaN"

definition js_sub :: "jsnum \<Rightarrow> jsnum \<Rightarrow> jsnum" where
  "js_sub a b = js_add a (js_neg b)"

fun js_sign :: "jsnum \<Rightarrow> int" where
  "js_sign NaN = 0"
| "js_sign (Fin a) = (if a < 0 then - 1 else if a = 0 then 0 else 1)"
| "js_sign PosInf = 1"
| "js_sign NegInf = - 1"

definition signed_inf :: "int \<Rightarrow> jsnum" where
  "signed_inf s = (if s = 0 then NaN else if 0 < s then PosInf else NegInf)"

fun js_mul :: "jsnum \<Rightarrow> jsnum \<Rightarrow> jsnum" where
  "js_mul NaN _ = NaN"
| "js_mul _ NaN = NaN"
| "js_mul (Fin a) (Fin b) = Fin (a * b)"
| "js_mul a b = signed_inf (js_sign a * js_sign b)"

text \<open>
  Division: a non-zero number over zero is an infinity, zero over zero and an infinity
  over an infinity are \<^verbatim>\<open>NaN\<close>. Zero carries no sign here, so a positive number over
  zero is \<^verbatim>\<open>Infinity\<close>.
\<close>

fun js_div :: "jsnum \<Rightarrow> jsnum \<Rightarrow> jsnum" where
  "js_div NaN _ = NaN"
| "js_div _ NaN = NaN"
| "js_div (Fin a) (Fin b) = (if b = 0 then signed_inf (js_sign (Fin a)) else Fin (a / b))"
| "js_div (Fin a) _ = Fin 0"
| "js_div a (Fin b) = signed_inf (js_sign a * (if b < 0 then - 1 else 1))"
| "js_div _ _ = NaN"

text \<open>\<^verbatim>\<open>Math.ceil\<close>.\<close>

fun js_ceil :: "jsnum \<Rightarrow> jsnum" where
  "js_ceil (Fin a) = Fin (of_int \<lceil>a\<rceil>)"
| "js_ceil a = a"


section \<open>Documents, requests and responses\<close>

text \<open>
  A product document as \<^verbatim>\<open>models/Product.js\<close> declares it (the field \<^verbatim>\<open>image\<close> is
  \<open>image_url\<close> here, \<^verbatim>\<open>_id\<close> is \<open>pid\<close>). Identifiers are the strings that
  \<^verbatim>\<open>ObjectId.toString()\<close> gives. Of the two timestamps only \<^verbatim>\<open>createdAt\<close>, which the
  listing sorts by, is kept.
\<close>

record product =
  pid :: string
  name :: string
  description :: string
  price :: jsnum
  category :: string
  stock :: jsnum
  image_url :: string
  featured :: bool
  createdAt :: int

record line_item =
  product_ref :: string
  quantity :: jsnum

text \<open>
  Modelled from the spec: \<^verbatim>\<open>models/Cart.js\<close> is not among the sources. The spec gives a
  cart an owning user, at most one cart per user, and an ordered sequence of line items
  (a product reference and a quantity); the collection of carts is therefore a map from
  the owner's id to the line items of that owner's cart.
\<close>

record store =
  products :: "product list"
  carts :: "string \<rightharpoonup> line_item list"

record user =
  user_id :: string
  role :: jsval

text \<open>
  A request: the caller context \<^verbatim>\<open>req.user\<close> (absent until a middleware sets it),
  \<^verbatim>\<open>req.params.id\<close>, the fields of \<^verbatim>\<open>req.body\<close> and \<^verbatim>\<open>req.query\<close> (an absent field reads
  \<^verbatim>\<open>undefined\<close>) and \<^verbatim>\<open>req.file.path\<close> (\<^verbatim>\<open>undefined\<close> without an uploaded file).
\<close>

record request =
  req_user :: "user option"
  params_id :: string
  body :: "string \<Rightarrow> jsval"
  query :: "string \<Rightarrow> jsval"
  file_path :: jsval

record pagination =
  current :: jsnum
  pages :: jsnum
  total :: nat
  hasNext :: bool
  hasPrev :: bool

text \<open>
  The \<^verbatim>\<open>data\<close> member of the envelope. A cart is returned with every line item resolved
  to the product it refers to (\<open>None\<close> when that product no longer exists).
\<close>

datatype payload =
    NoData
  | EmptyData
  | ProductData product
  | ProductsData "product list" pagination
  | CartData string "(product option \<times> jsnum) list"
  | ImageUrl jsval

text \<open>
  The envelope of a response with its HTTP status. The \<^verbatim>\<open>error\<close> member, which carries
  the text of a caught exception, is left out; a response without a message has the
  empty message.
\<close>

record response =
  status :: nat
  success :: bool
  message :: string
  data :: payload

definition respond :: "nat \<Rightarrow> bool \<Rightarrow> string \<Rightarrow> payload \<Rightarrow> response" where
  "respond c ok m d = \<lparr>status = c, success = ok, message = m, data = d\<rparr>"

datatype mw_result = Next request | Respond response

datatype store_error = CastError | ValidationError

text \<open>
  What the handlers use and the sources do not contain: the clock and the identifier
  generator of the driver, the conversion of a number to a string, which values the
  driver accepts as an identifier, the text index, the validation that the cart schema
  applies to a quantity, what \<^verbatim>\<open>skip\<close> and \<^verbatim>\<open>limit\<close> do outside the natural numbers, and
  the middlewares \<^verbatim>\<open>auth\<close> and \<^verbatim>\<open>upload.single('image')\<close>. Every handler takes them as
  one parameter, and every theorem holds for all of them.
\<close>

record env =
  now :: int
  fresh_id :: string
  number_text :: "jsnum \<Rightarrow> string"
  id_castable :: "jsval \<Rightarrow> bool"
  text_search :: "string \<Rightarrow> product \<Rightarrow> bool"
  quantity_valid :: "jsnum \<Rightarrow> bool"
  irregular_page :: "jsnum \<Rightarrow> jsnum \<Rightarrow> product list \<Rightarrow> store_error + product list"
  auth :: "request \<Rightarrow> mw_result"
  upload_single :: "request \<Rightarrow> mw_result"

section \<open>The product schema\<close>

definition categories :: "string list" where
  "categories = [''Electronics'', ''Clothing'', ''Books'', ''Home & Garden'', ''Sports'', ''Toys'', ''Other'']"

definition placeholder_image :: string where
  "placeholder_image = ''https://images.pexels.com/photos/1279813/pexels-photo-1279813.jpeg?auto=compress&cs=tinysrgb&w=400''"

text \<open>
  The cast of a value assigned to a \<^verbatim>\<open>String\<close> path: a string is kept, a number or a
  boolean is converted with \<^verbatim>\<open>toString()\<close>. The handlers assign truthy values only, so
  the last two equations are never reached.
\<close>

fun cast_string :: "env \<Rightarrow> jsval \<Rightarrow> string" where
  "cast_string E (JStr s) = s"
| "cast_string E (JNum n) = number_text E n"
| "cast_string E (JBool b) = (if b then ''true'' else ''false'')"
| "cast_string E JNull = []"
| "cast_string E JUndefined = []"

text \<open>
  The validators of the schema: \<^verbatim>\<open>required\<close> (a string path must be non-empty),
  \<^verbatim>\<open>maxlength\<close>, \<^verbatim>\<open>min\<close> and \<^verbatim>\<open>enum\<close>; a \<^verbatim>\<open>Number\<close> path refuses \<^verbatim>\<open>NaN\<close>.
\<close>

definition validate_product :: "product \<Rightarrow> bool" where
  "validate_product p \<longleftrightarrow>
     name p \<noteq> [] \<and> length (name p) \<le> 100
     \<and> description p \<noteq> [] \<and> length (description p) \<le> 1000
     \<and> price p \<noteq> NaN \<and> js_le (Fin 0) (price p)
     \<and> category p \<in> set categories
     \<and> stock p \<noteq> NaN \<and> js_le (Fin 0) (stock p)"

section \<open>Store operations\<close>

text \<open>\<^verbatim>\<open>Array.prototype.findIndex\<close>, with \<open>None\<close> for \<open>-1\<close>.\<close>

fun findIndex :: "('a \<Rightarrow> bool) \<Rightarrow> 'a list \<Rightarrow> nat option" where
  "findIndex P [] = None"
| "findIndex P (x # xs) = (if P x then Some 0 else map_option Suc (findIndex P xs))"

text \<open>
  \<^verbatim>\<open>Product.findById\<close>: a cast error when the driver does not accept the value as an
  identifier, otherwise the document with that identifier, if any. An identifier is
  looked up by the string that \<^verbatim>\<open>toString()\<close> gives for it, which is also what the cart
  handlers compare with \<^verbatim>\<open>productId\<close>.
\<close>

definition findById :: "env \<Rightarrow> store \<Rightarrow> jsval \<Rightarrow> store_error + product option" where
  "findById E st v =
     (if id_castable E v then Inr (find (\<lambda>p. JStr (pid p) = v) (products st))
      else Inl CastError)"

text \<open>
  \<^verbatim>\<open>product.save()\<close> on a loaded document and \<^verbatim>\<open>Product.create\<close>: the document is
  validated, then written (over the stored document with the same identifier, or as a
  new document); a validation error is thrown before anything is written.
\<close>

definition save_product :: "store \<Rightarrow> product \<Rightarrow> store_error + store" where
  "save_product st p' =
     (if validate_product p' then
        Inr (st\<lparr>products :=
               (case findIndex (\<lambda>p. pid p = pid p') (products st) of
                  None \<Rightarrow> products st
                | Some k \<Rightarrow> (products st)[k := p'])\<rparr>)
      else Inl ValidationError)"

definition create_document :: "store \<Rightarrow> product \<Rightarrow> store_error + store" where
  "create_document st p' =
     (if validate_product p' then Inr (st\<lparr>products := products st @ [p']\<rparr>)
      else Inl ValidationError)"

text \<open>\<^verbatim>\<open>Product.findByIdAndDelete\<close>.\<close>

definition findByIdAndDelete :: "store \<Rightarrow> string \<Rightarrow> store" where
  "findByIdAndDelete st i =
     st\<lparr>products :=
          (case findIndex (\<lambda>p. pid p = i) (products st) of
             None \<Rightarrow> products st
           | Some k \<Rightarrow> take k (products st) @ drop (Suc k) (products st))\<rparr>"

text \<open>\<^verbatim>\<open>cart.populate('items.product', 'name price image stock')\<close>.\<close>

definition populate :: "store \<Rightarrow> line_item list \<Rightarrow> (product option \<times> jsnum) list" where
  "populate st its =
     map (\<lambda>i. (find (\<lambda>p. pid p = product_ref i) (products st), quantity i)) its"

text \<open>
  \<^verbatim>\<open>cart.save()\<close>: the document is validated, then written; a validation error is thrown
  before anything is written.
\<close>

definition save_cart :: "env \<Rightarrow> store \<Rightarrow> string \<Rightarrow> line_item list \<Rightarrow> store_error + store" where
  "save_cart E st uid its =
     (if list_all (\<lambda>i. quantity_valid E (quantity i)) its
      then Inr (st\<lparr>carts := (carts st)(uid \<mapsto> its)\<rparr>)
      else Inl ValidationError)"


section \<open>The access gate (middleware/isAdmin.js)\<close>

definition isAdmin :: "request \<Rightarrow> mw_result" where
  "isAdmin req =
     (case req_user req of
        None \<Rightarrow> Respond (respond 403 False ''Access denied. Admins only.'' NoData)
      | Some u \<Rightarrow>
          if role u = JStr ''admin'' then Next req
          else Respond (respond 403 False ''Access denied. Admins only.'' NoData))"

section \<open>The product routes (routes/products.js)\<close>

subsection \<open>POST /upload\<close>

definition upload_image :: "env \<Rightarrow> store \<Rightarrow> request \<Rightarrow> response \<times> store" where
  "upload_image E st req =
     (if \<not> truthy (file_path req) then (respond 400 False ''No image uploaded'' NoData, st)
      else (respond 200 True [] (ImageUrl (file_path req)), st))"

subsection \<open>GET /\<close>

text \<open>
  The \<^verbatim>\<open>query\<close> object the handler builds: a member is \<open>None\<close> when the handler does
  not set it. \<open>q_price\<close> is the object \<^verbatim>\<open>{$gte, $lte}\<close>, either bound optional.
\<close>

record product_query =
  q_category :: "jsval option"
  q_price :: "(jsnum option \<times> jsnum option) option"
  q_text :: "jsval option"

definition build_query :: "request \<Rightarrow> product_query" where
  "build_query req =
     (let category = query req ''category'';
          minPrice = query req ''minPrice'';
          maxPrice = query req ''maxPrice'';
          search = query req ''search''
      in \<lparr>q_category = (if truthy category \<and> category \<noteq> JStr ''all'' then Some category else None),
          q_price = (if truthy minPrice \<or> truthy maxPrice
                     then Some (if truthy minPrice then Some (to_number minPrice) else None,
                                if truthy maxPrice then Some (to_number maxPrice) else None)
                     else None),
          q_text = (if truthy search then Some search else None)\<rparr>)"

text \<open>
  What the store does with the query object. A \<^verbatim>\<open>NaN\<close> bound does not cast to the
  \<^verbatim>\<open>Number\<close> path and the query throws. A document matches when its category equals
  the given one, its price lies within the given bounds and the text index matches it.
\<close>

definition query_castable :: "product_query \<Rightarrow> bool" where
  "query_castable q \<longleftrightarrow>
     (case q_price q of
        None \<Rightarrow> True
      | Some (lo, hi) \<Rightarrow> lo \<noteq> Some NaN \<and> hi \<noteq> Some NaN)"

definition matches :: "env \<Rightarrow> product_query \<Rightarrow> product \<Rightarrow> bool" where
  "matches E q p \<longleftrightarrow>
     (case q_category q of None \<Rightarrow> True | Some c \<Rightarrow> category p = cast_string E c)
     \<and> (case q_price q of
          None \<Rightarrow> True
        | Some (lo, hi) \<Rightarrow>
            (case lo of None \<Rightarrow> True | Some a \<Rightarrow> js_le a (price p))
            \<and> (case hi of None \<Rightarrow> True | Some b \<Rightarrow> js_le (price p) b))
     \<and> (case q_text q of None \<Rightarrow> True | Some t \<Rightarrow> text_search E (cast_string E t) p)"

text \<open>\<^verbatim>\<open>sort({ createdAt: -1 })\<close>; documents created at the same instant keep their order.\<close>

definition newest_first :: "product list \<Rightarrow> product list" where
  "newest_first xs = sort_key (\<lambda>p. - createdAt p) xs"

text \<open>A number that is a natural number, as \<^verbatim>\<open>skip\<close> and \<^verbatim>\<open>limit\<close> expect.\<close>

fun as_nat :: "jsnum \<Rightarrow> nat option" where
  "as_nat (Fin a) = (if 0 \<le> a \<and> of_int \<lfloor>a\<rfloor> = a then Some (nat \<lfloor>a\<rfloor>) else None)"
| "as_nat _ = None"

text \<open>
  \<^verbatim>\<open>Product.find(query).skip(skip).limit(limit).sort(...)\<close>: the matching documents are
  sorted, then \<open>skip\<close> of them are passed over and up to \<open>limit\<close> returned. Outside a
  natural \<open>skip\<close> and a positive natural \<open>limit\<close> the result is the driver's.
\<close>

definition find_page :: "env \<Rightarrow> store \<Rightarrow> product_query \<Rightarrow> jsnum \<Rightarrow> jsnum \<Rightarrow> store_error + product list" where
  "find_page E st q skip lmt =
     (if \<not> query_castable q then Inl CastError
      else
        let sorted_matches = newest_first (filter (matches E q) (products st)) in
        case (as_nat skip, as_nat lmt) of
          (Some s, Some l) \<Rightarrow>
            if 0 < l then Inr (take l (drop s sorted_matches))
            else irregular_page E skip lmt sorted_matches
        | _ \<Rightarrow> irregular_page E skip lmt sorted_matches)"

definition countDocuments :: "env \<Rightarrow> store \<Rightarrow> product_query \<Rightarrow> store_error + nat" where
  "countDocuments E st q =
     (if \<not> query_castable q then Inl CastError
      else Inr (length (filter (matches E q) (products st))))"

definition list_products :: "env \<Rightarrow> store \<Rightarrow> request \<Rightarrow> response \<times> store" where
  "list_products E st req =
     (let page = default_to (JNum (Fin 1)) (query req ''page'');
          limit = default_to (JNum (Fin 12)) (query req ''limit'');
          q = build_query req;
          skip = js_mul (js_sub (to_number page) (Fin 1)) (to_number limit)
      in case find_page E st q skip (to_number limit) of
           Inl e \<Rightarrow> (respond 500 False ''Server error while fetching products'' NoData, st)
         | Inr ps \<Rightarrow>
             (case countDocuments E st q of
                Inl e \<Rightarrow> (respond 500 False ''Server error while fetching products'' NoData, st)
              | Inr n \<Rightarrow>
                  (respond 200 True ''Products retrieved successfully''
                     (ProductsData ps
                        \<lparr>current = to_number page,
                         pages = js_ceil (js_div (Fin (of_nat n)) (to_number limit)),
                         total = n,
                         hasNext = js_lt (to_number page)
                                     (js_ceil (js_div (Fin (of_nat n)) (to_number limit))),
                         hasPrev = js_lt (Fin 1) (to_number page)\<rparr>), st)))"


subsection \<open>GET /:id\<close>

definition get_product :: "env \<Rightarrow> store \<Rightarrow> request \<Rightarrow> response \<times> store" where
  "get_product E st req =
     (case findById E st (JStr (params_id req)) of
        Inl e \<Rightarrow> (respond 500 False ''Server error while fetching product'' NoData, st)
      | Inr None \<Rightarrow> (respond 404 False ''Product not found'' NoData, st)
      | Inr (Some product) \<Rightarrow>
          (respond 200 True ''Product retrieved successfully'' (ProductData product), st))"

subsection \<open>POST /\<close>

text \<open>The document that the handler hands to \<^verbatim>\<open>Product.create\<close>, with the schema's defaults.\<close>

definition new_product :: "env \<Rightarrow> request \<Rightarrow> product" where
  "new_product E req =
     \<lparr>pid = fresh_id E,
      name = trim (cast_string E (body req ''name'')),
      description = cast_string E (body req ''description''),
      price = to_number (body req ''price''),
      category = cast_string E (body req ''category''),
      stock = (if truthy (JNum (to_number (body req ''stock''))) then to_number (body req ''stock'')
               else Fin 0),
      image_url = (if truthy (body req ''image'') then cast_string E (body req ''image'')
                   else placeholder_image),
      featured = truthy (body req ''featured''),
      createdAt = now E\<rparr>"

definition create_product :: "env \<Rightarrow> store \<Rightarrow> request \<Rightarrow> response \<times> store" where
  "create_product E st req =
     (if \<not> truthy (body req ''name'') \<or> \<not> truthy (body req ''description'')
         \<or> \<not> truthy (body req ''price'') \<or> \<not> truthy (body req ''category'')
      then (respond 400 False ''Please provide name, description, price, and category'' NoData, st)
      else
        case create_document st (new_product E req) of
          Inl e \<Rightarrow> (respond 500 False ''Server error while creating product'' NoData, st)
        | Inr st' \<Rightarrow>
            (respond 201 True ''Product created successfully'' (ProductData (new_product E req)), st'))"

subsection \<open>PUT /:id\<close>

text \<open>
  The assignments of the handler to the loaded document. An assignment to \<^verbatim>\<open>name\<close> goes
  through the schema's \<^verbatim>\<open>trim\<close>, also when the value assigned is the stored name.
\<close>

definition update_fields :: "env \<Rightarrow> request \<Rightarrow> product \<Rightarrow> product" where
  "update_fields E req product =
     product
       \<lparr>name := trim (if truthy (body req ''name'') then cast_string E (body req ''name'')
                       else name product),
        description := (if truthy (body req ''description'')
                        then cast_string E (body req ''description'') else description product),
        price := (if body req ''price'' \<noteq> JUndefined then to_number (body req ''price'')
                  else price product),
        category := (if truthy (body req ''category'') then cast_string E (body req ''category'')
                     else category product),
        stock := (if body req ''stock'' \<noteq> JUndefined then to_number (body req ''stock'')
                  else stock product),
        image_url := (if truthy (body req ''image'') then cast_string E (body req ''image'')
                      else image_url product),
        featured := (if body req ''featured'' \<noteq> JUndefined then truthy (body req ''featured'')
                     else featured product)\<rparr>"

definition update_product :: "env \<Rightarrow> store \<Rightarrow> request \<Rightarrow> response \<times> store" where
  "update_product E st req =
     (case findById E st (JStr (params_id req)) of
        Inl e \<Rightarrow> (respond 500 False ''Server error while updating product'' NoData, st)
      | Inr None \<Rightarrow> (respond 404 False ''Product not found'' NoData, st)
      | Inr (Some product) \<Rightarrow>
          (case save_product st (update_fields E req product) of
             Inl e \<Rightarrow> (respond 500 False ''Server error while updating product'' NoData, st)
           | Inr st' \<Rightarrow>
               (respond 200 True ''Product updated successfully''
                  (ProductData (update_fields E req product)), st')))"

subsection \<open>DELETE /:id\<close>

definition delete_product :: "env \<Rightarrow> store \<Rightarrow> request \<Rightarrow> response \<times> store" where
  "delete_product E st req =
     (case findById E st (JStr (params_id req)) of
        Inl e \<Rightarrow> (respond 500 False ''Server error while deleting product'' NoData, st)
      | Inr None \<Rightarrow> (respond 404 False ''Product not found'' NoData, st)
      | Inr (Some product) \<Rightarrow>
          (respond 200 True ''Product deleted successfully'' EmptyData,
           findByIdAndDelete st (params_id req)))"

subsection \<open>The router\<close>

datatype product_route = PostUpload | GetList | GetOne | PostCreate | PutUpdate | DeleteOne

text \<open>The middlewares each route names before its handler, in order.\<close>

fun product_middlewares :: "env \<Rightarrow> product_route \<Rightarrow> (request \<Rightarrow> mw_result) list" where
  "product_middlewares E PostUpload = [auth E, isAdmin, upload_single E]"
| "product_middlewares E GetList = []"
| "product_middlewares E GetOne = []"
| "product_middlewares E PostCreate = [auth E, isAdmin]"
| "product_middlewares E PutUpdate = [auth E, isAdmin]"
| "product_middlewares E DeleteOne = [auth E, isAdmin]"

fun product_handler :: "product_route \<Rightarrow> env \<Rightarrow> store \<Rightarrow> request \<Rightarrow> response \<times> store" where
  "product_handler PostUpload = upload_image"
| "product_handler GetList = list_products"
| "product_handler GetOne = get_product"
| "product_handler PostCreate = create_product"
| "product_handler PutUpdate = update_product"
| "product_handler DeleteOne = delete_product"

text \<open>
  Express runs the middlewares in order; one that responds instead of calling
  \<^verbatim>\<open>next()\<close> ends the request, and the handler is not run.
\<close>

fun run_middlewares :: "(request \<Rightarrow> mw_result) list \<Rightarrow> request \<Rightarrow> mw_result" where
  "run_middlewares [] req = Next req"
| "run_middlewares (m # ms) req =
     (case m req of Respond r \<Rightarrow> Respond r | Next req' \<Rightarrow> run_middlewares ms req')"

definition products_router :: "env \<Rightarrow> product_route \<Rightarrow> store \<Rightarrow> request \<Rightarrow> response \<times> store" where
  "products_router E r st req =
     (case run_middlewares (product_middlewares E r) req of
        Respond res \<Rightarrow> (res, st)
      | Next req' \<Rightarrow> product_handler r E st req')"


section \<open>The cart routes\<close>

text \<open>
  Every cart route runs behind \<^verbatim>\<open>auth\<close>. A handler reads \<^verbatim>\<open>req.user._id\<close> inside its
  \<^verbatim>\<open>try\<close> block, so a request that reaches it without a caller context ends in the
  \<^verbatim>\<open>catch\<close> branch (500). Failures of the database itself are not modelled.
\<close>

text \<open>The assignment \<^verbatim>\<open>cart.items[k].quantity = q\<close>, for an index that \<^verbatim>\<open>findIndex\<close> found.\<close>

definition set_quantity :: "line_item list \<Rightarrow> nat \<Rightarrow> jsnum \<Rightarrow> line_item list" where
  "set_quantity its k q = its[k := (its ! k)\<lparr>quantity := q\<rparr>]"

subsection \<open>POST /add\<close>


subsection \<open>POST /remove\<close>

definition remove_from_cart :: "env \<Rightarrow> store \<Rightarrow> request \<Rightarrow> response \<times> store" where
  "remove_from_cart E st req =
     (let productId = body req ''productId'' in
      if \<not> truthy productId then (respond 400 False ''Product ID is required'' NoData, st)
      else
        case req_user req of
          None \<Rightarrow> (respond 500 False ''Server error while removing from cart'' NoData, st)
        | Some u \<Rightarrow>
            (case carts st (user_id u) of
               None \<Rightarrow> (respond 404 False ''Cart not found'' NoData, st)
             | Some its \<Rightarrow>
                 (case save_cart E st (user_id u)
                         (filter (\<lambda>item. JStr (product_ref item) \<noteq> productId) its) of
                    Inl e \<Rightarrow>
                      (respond 500 False ''Server error while removing from cart'' NoData, st)
                  | Inr st' \<Rightarrow>
                      (respond 200 True ''Item removed from cart successfully''
                         (CartData (user_id u)
                            (populate st'
                               (filter (\<lambda>item. JStr (product_ref item) \<noteq> productId) its))),
                       st'))))"

subsection \<open>POST /update\<close>

definition update_cart :: "env \<Rightarrow> store \<Rightarrow> request \<Rightarrow> response \<times> store" where
  "update_cart E st req =
     (let productId = body req ''productId'';
          qty = body req ''quantity''
      in
      if \<not> truthy productId \<or> \<not> truthy qty
      then (respond 400 False ''Product ID and quantity are required'' NoData, st)
      else if js_lt (to_number qty) (Fin 1)
      then (respond 400 False ''Quantity must be at least 1'' NoData, st)
      else
        case findById E st productId of
          Inl e \<Rightarrow> (respond 500 False ''Server error while updating cart'' NoData, st)
        | Inr None \<Rightarrow> (respond 404 False ''Product not found'' NoData, st)
        | Inr (Some product) \<Rightarrow>
            if js_lt (stock product) (to_number qty)
            then (respond 400 False ''Insufficient stock available'' NoData, st)
            else
              (case req_user req of
                 None \<Rightarrow> (respond 500 False ''Server error while updating cart'' NoData, st)
               | Some u \<Rightarrow>
                   (case carts st (user_id u) of
                      None \<Rightarrow> (respond 404 False ''Cart not found'' NoData, st)
                    | Some its \<Rightarrow>
                        (case findIndex (\<lambda>item. JStr (product_ref item) = productId) its of
                           None \<Rightarrow> (respond 404 False ''Item not found in cart'' NoData, st)
                         | Some k \<Rightarrow>
                             (case save_cart E st (user_id u)
                                     (set_quantity its k (to_number qty)) of
                                Inl e \<Rightarrow>
                                  (respond 500 False ''Server error while updating cart'' NoData, st)
                              | Inr st' \<Rightarrow>
                                  (respond 200 True ''Cart updated successfully''
                                     (CartData (user_id u)
                                        (populate st'
                                           (set_quantity its k (to_number qty)))),
                                   st'))))))"

subsection \<open>DELETE /\<close>

definition clear_cart :: "env \<Rightarrow> store \<Rightarrow> request \<Rightarrow> response \<times> store" where
  "clear_cart E st req =
     (case req_user req of
        None \<Rightarrow> (respond 500 False ''Server error while clearing cart'' NoData, st)
      | Some u \<Rightarrow>
          (case carts st (user_id u) of
             None \<Rightarrow> (respond 404 False ''Cart not found'' NoData, st)
           | Some its \<Rightarrow>
               (case save_cart E st (user_id u) [] of
                  Inl e \<Rightarrow> (respond 500 False ''Server error while clearing cart'' NoData, st)
                | Inr st' \<Rightarrow>
                    (respond 200 True ''Cart cleared successfully'' (CartData (user_id u) []),
                     st'))))"


section \<open>Sample data\<close>

text \<open>
  Modelled from the spec: \<^verbatim>\<open>models/Cart.js\<close> is not among the sources; the spec gives each
  line item a positive integer quantity. The sample environment validates quantities so.
\<close>

definition positive_integer :: "jsnum \<Rightarrow> bool" where
  "positive_integer q = (case as_nat q of None \<Rightarrow> False | Some n \<Rightarrow> 0 < n)"

text \<open>An object with exactly the given members.\<close>

definition fields :: "(string \<times> jsval) list \<Rightarrow> string \<Rightarrow> jsval" where
  "fields kvs k = (case map_of kvs k of None \<Rightarrow> JUndefined | Some v \<Rightarrow> v)"

definition sample_request :: "user option \<Rightarrow> string \<Rightarrow> (string \<times> jsval) list \<Rightarrow> (string \<times> jsval) list \<Rightarrow> request" where
  "sample_request u i b q =
     \<lparr>req_user = u, params_id = i, body = fields b, query = fields q, file_path = JUndefined\<rparr>"

definition shopper :: user where
  "shopper = \<lparr>user_id = ''u1'', role = JStr ''user''\<rparr>"

definition admin :: user where
  "admin = \<lparr>user_id = ''a1'', role = JStr ''admin''\<rparr>"

text \<open>
  A sample environment. Its \<^verbatim>\<open>auth\<close> lets a request pass when a caller context is
  attached and answers 401 otherwise.
\<close>

definition sample_env :: env where
  "sample_env =
     \<lparr>now = 4000,
      fresh_id = ''p4'',
      number_text = (\<lambda>n. ''0''),
      id_castable = (\<lambda>v. case v of JStr s \<Rightarrow> True | _ \<Rightarrow> False),
      text_search = (\<lambda>s p. True),
      quantity_valid = positive_integer,
      irregular_page = (\<lambda>s l xs. Inl CastError),
      auth = (\<lambda>req. case req_user req of
                       None \<Rightarrow> Respond (respond 401 False ''Not authorized'' NoData)
                     | Some u \<Rightarrow> Next req),
      upload_single = Next\<rparr>"

definition lamp :: product where
  "lamp = \<lparr>pid = ''p1'', name = ''Lamp'', description = ''A desk lamp'', price = Fin 25,
           category = ''Electronics'', stock = Fin 5, image_url = ''lamp.png'',
           featured = False, createdAt = 1000\<rparr>"

definition novel :: product where
  "novel = \<lparr>pid = ''p2'', name = ''Novel'', description = ''A long story'', price = Fin 12,
            category = ''Books'', stock = Fin 3, image_url = ''novel.png'',
            featured = True, createdAt = 2000\<rparr>"

definition phone :: product where
  "phone = \<lparr>pid = ''p3'', name = ''Phone'', description = ''A smart phone'', price = Fin 300,
            category = ''Electronics'', stock = Fin 7, image_url = ''phone.png'',
            featured = False, createdAt = 3000\<rparr>"

definition sample_store :: store where
  "sample_store = \<lparr>products = [lamp, novel, phone], carts = Map.empty\<rparr>"

text \<open>The same store after the shopper has put three lamps into a cart.\<close>

definition cart_store :: store where
  "cart_store = sample_store\<lparr>carts := [''u1'' \<mapsto> [\<lparr>product_ref = ''p1'', quantity = Fin 3\<rparr>]]\<rparr>"

section \<open>Properties of the product routes\<close>

lemmas sample_defs = sample_env_def sample_store_def cart_store_def sample_request_def fields_def
  lamp_def novel_def phone_def shopper_def admin_def positive_integer_def

subsection \<open>The access gate\<close>

lemma isAdmin_passes:
  "isAdmin req = Next req \<longleftrightarrow> (\<exists>u. req_user req = Some u \<and> role u = JStr ''admin'')"
  by (auto simp: isAdmin_def split: option.splits)

lemma isAdmin_refuses:
  "\<not> (\<exists>u. req_user req = Some u \<and> role u = JStr ''admin'') \<Longrightarrow>
   isAdmin req = Respond (respond 403 False ''Access denied. Admins only.'' NoData)"
  by (auto simp: isAdmin_def split: option.splits)

lemma gated_route_refused:
  "r \<in> {PostUpload, PostCreate, PutUpdate, DeleteOne} \<Longrightarrow> auth E req = Next req' \<Longrightarrow>
   \<not> (\<exists>u. req_user req' = Some u \<and> role u = JStr ''admin'') \<Longrightarrow>
   products_router E r st req = (respond 403 False ''Access denied. Admins only.'' NoData, st)"
  by (auto simp: products_router_def isAdmin_refuses)

lemma gated_route_unauthenticated:
  "r \<in> {PostUpload, PostCreate, PutUpdate, DeleteOne} \<Longrightarrow> auth E req = Respond res \<Longrightarrow>
   products_router E r st req = (res, st)"
  by (auto simp: products_router_def)

lemma gated_route_admin:
  "r \<in> {PostCreate, PutUpdate, DeleteOne} \<Longrightarrow> auth E req = Next req' \<Longrightarrow>
   req_user req' = Some u \<Longrightarrow> role u = JStr ''admin'' \<Longrightarrow>
   products_router E r st req = product_handler r E st req'"
  by (auto simp: products_router_def isAdmin_def)

lemma open_routes:
  "products_router E GetList st req = list_products E st req"
  "products_router E GetOne st req = get_product E st req"
  by (simp_all add: products_router_def)

text \<open>
  Claim C9. The gate \<open>isAdmin\<close> lets a request pass exactly when a caller context is
  attached and its role is \<^verbatim>\<open>'admin'\<close>; otherwise it answers 403. It stands in the
  middleware chain of upload, create, update and delete: on these routes a request that
  \<^verbatim>\<open>auth\<close> answers itself, or that \<^verbatim>\<open>auth\<close> lets through without an admin caller,
  gets that answer or the 403 and leaves the store as it was, and a request of an admin
  reaches the handler of create, update and delete. The routes that list products and get one product have
  no middleware and run their handlers for any caller.
\<close>

theorem access_gate:
  "(isAdmin req = Next req \<longleftrightarrow> (\<exists>u. req_user req = Some u \<and> role u = JStr ''admin''))
   \<and> (\<not> (\<exists>u. req_user req = Some u \<and> role u = JStr ''admin'') \<longrightarrow>
        isAdmin req = Respond (respond 403 False ''Access denied. Admins only.'' NoData))
   \<and> (\<forall>r \<in> {PostUpload, PostCreate, PutUpdate, DeleteOne}.
        isAdmin \<in> set (product_middlewares E r)
        \<and> (\<forall>res. auth E req = Respond res \<longrightarrow> products_router E r st req = (res, st))
        \<and> (\<forall>req'. auth E req = Next req'
               \<and> \<not> (\<exists>u. req_user req' = Some u \<and> role u = JStr ''admin'') \<longrightarrow>
             products_router E r st req
               = (respond 403 False ''Access denied. Admins only.'' NoData, st)))
   \<and> (\<forall>r \<in> {PostCreate, PutUpdate, DeleteOne}.
        \<forall>req' u. auth E req = Next req' \<and> req_user req' = Some u \<and> role u = JStr ''admin'' \<longrightarrow>
          products_router E r st req = product_handler r E st req')
   \<and> product_middlewares E GetList = []
   \<and> product_middlewares E GetOne = []
   \<and> products_router E GetList st req = list_products E st req
   \<and> products_router E GetOne st req = get_product E st req"
proof -
  have gate: "\<forall>r \<in> {PostUpload, PostCreate, PutUpdate, DeleteOne}.
        isAdmin \<in> set (product_middlewares E r)
        \<and> (\<forall>res. auth E req = Respond res \<longrightarrow> products_router E r st req = (res, st))
        \<and> (\<forall>req'. auth E req = Next req'
               \<and> \<not> (\<exists>u. req_user req' = Some u \<and> role u = JStr ''admin'') \<longrightarrow>
             products_router E r st req
               = (respond 403 False ''Access denied. Admins only.'' NoData, st))"
  proof (intro ballI conjI allI impI)
    fix r assume r: "r \<in> {PostUpload, PostCreate, PutUpdate, DeleteOne}"
    then show "isAdmin \<in> set (product_middlewares E r)" by auto
    { fix res assume "auth E req = Respond res"
      with r show "products_router E r st req = (res, st)"
        by (rule gated_route_unauthenticated) }
    { fix req'
      assume "auth E req = Next req'
              \<and> \<not> (\<exists>u. req_user req' = Some u \<and> role u = JStr ''admin'')"
      with r show "products_router E r st req
               = (respond 403 False ''Access denied. Admins only.'' NoData, st)"
        using gated_route_refused [of r E req req' st] by blast }
  qed
  have pass: "\<forall>r \<in> {PostCreate, PutUpdate, DeleteOne}.
        \<forall>req' u. auth E req = Next req' \<and> req_user req' = Some u \<and> role u = JStr ''admin'' \<longrightarrow>
          products_router E r st req = product_handler r E st req'"
    using gated_route_admin by blast
  show ?thesis
    using gate pass isAdmin_passes [of req] isAdmin_refuses [of req] open_routes [of E st req]
    by simp
qed


theorem access_gate_witness:
  "req_user (sample_request (Some admin) ''p1'' [] []) = Some admin \<and> role admin = JStr ''admin''
   \<and> isAdmin (sample_request (Some admin) ''p1'' [] []) = Next (sample_request (Some admin) ''p1'' [] [])
   \<and> isAdmin (sample_request (Some shopper) ''p1'' [] [])
       = Respond (respond 403 False ''Access denied. Admins only.'' NoData)
   \<and> isAdmin (sample_request None ''p1'' [] [])
       = Respond (respond 403 False ''Access denied. Admins only.'' NoData)
   \<and> auth sample_env (sample_request (Some shopper) ''p1'' [] [])
       = Next (sample_request (Some shopper) ''p1'' [] [])
   \<and> products_router sample_env DeleteOne sample_store (sample_request (Some shopper) ''p1'' [] [])
       = (respond 403 False ''Access denied. Admins only.'' NoData, sample_store)
   \<and> auth sample_env (sample_request None ''p1'' [] [])
       = Respond (respond 401 False ''Not authorized'' NoData)
   \<and> products_router sample_env DeleteOne sample_store (sample_request None ''p1'' [] [])
       = (respond 401 False ''Not authorized'' NoData, sample_store)
   \<and> map pid (products (snd (products_router sample_env DeleteOne sample_store
         (sample_request (Some admin) ''p1'' [] [])))) = [''p2'', ''p3'']
   \<and> status (fst (products_router sample_env GetOne sample_store
         (sample_request None ''p1'' [] []))) = 200"
proof -
  let ?adm = "sample_request (Some admin) ''p1'' [] []"
  let ?shop = "sample_request (Some shopper) ''p1'' [] []"
  let ?anon = "sample_request None ''p1'' [] []"
  let ?no = "Respond (respond 403 False ''Access denied. Admins only.'' NoData)"
  have adm: "req_user ?adm = Some admin" "role admin = JStr ''admin''"
    by (simp_all add: sample_request_def admin_def)
  have shop: "\<not> (\<exists>u. req_user ?shop = Some u \<and> role u = JStr ''admin'')"
    by (simp add: sample_request_def shopper_def)
  have anon: "\<not> (\<exists>u. req_user ?anon = Some u \<and> role u = JStr ''admin'')"
    by (simp add: sample_request_def)
  have auth_adm: "auth sample_env ?adm = Next ?adm"
    and auth_shop: "auth sample_env ?shop = Next ?shop"
    and auth_anon: "auth sample_env ?anon = Respond (respond 401 False ''Not authorized'' NoData)"
    by (simp_all add: sample_env_def sample_request_def)
  have 1: "isAdmin ?adm = Next ?adm"
    using access_gate [of ?adm sample_env sample_store] adm by blast
  have 2: "isAdmin ?shop = ?no"
    using access_gate [of ?shop sample_env sample_store] shop by blast
  have 3: "isAdmin ?anon = ?no"
    using access_gate [of ?anon sample_env sample_store] anon by blast
  have 4: "products_router sample_env DeleteOne sample_store ?shop
             = (respond 403 False ''Access denied. Admins only.'' NoData, sample_store)"
    using access_gate [of ?shop sample_env sample_store] auth_shop shop by blast
  have 5: "products_router sample_env DeleteOne sample_store ?anon
             = (respond 401 False ''Not authorized'' NoData, sample_store)"
    using access_gate [of ?anon sample_env sample_store] auth_anon by blast
  have "products_router sample_env DeleteOne sample_store ?adm
          = product_handler DeleteOne sample_env sample_store ?adm"
    using access_gate [of ?adm sample_env sample_store] auth_adm adm by blast
  then have 6: "map pid (products (snd (products_router sample_env DeleteOne sample_store ?adm)))
                  = [''p2'', ''p3'']"
    by (simp add: sample_defs delete_product_def findById_def findByIdAndDelete_def)
  have "products_router sample_env GetOne sample_store ?anon = get_product sample_env sample_store ?anon"
    using access_gate [of ?anon sample_env sample_store] by blast
  then have 7: "status (fst (products_router sample_env GetOne sample_store ?anon)) = 200"
    by (simp add: sample_defs get_product_def findById_def respond_def)
  show ?thesis
    using adm 1 2 3 4 5 6 7 auth_shop auth_anon by simp
qed

subsection \<open>Creating a product\<close>

lemma create_product_falsy:
  "f \<in> {''name'', ''description'', ''price'', ''category''} \<Longrightarrow> \<not> truthy (body req f) \<Longrightarrow>
   create_product E st req
     = (respond 400 False ''Please provide name, description, price, and category'' NoData, st)"
  by (auto simp: create_product_def)



lemma create_product_truthy:
  "\<forall>f \<in> {''name'', ''description'', ''price'', ''category''}. truthy (body req f) \<Longrightarrow>
   create_product E st req =
     (if validate_product (new_product E req)
      then (respond 201 True ''Product created successfully'' (ProductData (new_product E req)),
            st\<lparr>products := products st @ [new_product E req]\<rparr>)
      else (respond 500 False ''Server error while creating product'' NoData, st))"
  by (simp add: create_product_def create_document_def)






text \<open>
  Claim C10. Creation answers with the 400 validation error, and leaves the store
  unchanged, exactly when one of \<^verbatim>\<open>name\<close>, \<^verbatim>\<open>description\<close>, \<^verbatim>\<open>price\<close>,
  \<^verbatim>\<open>category\<close> is falsy. In particular it does so for every request whose price is the
  number \<open>0\<close>, for an empty string as name, description or category, and, with the
  same answer, for an absent field.
\<close>

theorem create_rejects_falsy:
  "(create_product E st req
      = (respond 400 False ''Please provide name, description, price, and category'' NoData, st)
    \<longleftrightarrow> (\<exists>f \<in> {''name'', ''description'', ''price'', ''category''}. \<not> truthy (body req f)))
   \<and> (body req ''price'' = JNum (Fin 0) \<longrightarrow>
        create_product E st req
          = (respond 400 False ''Please provide name, description, price, and category'' NoData, st))
   \<and> (\<forall>f \<in> {''name'', ''description'', ''category''}. body req f = JStr [] \<longrightarrow>
        create_product E st req
          = (respond 400 False ''Please provide name, description, price, and category'' NoData, st))
   \<and> (\<forall>f \<in> {''name'', ''description'', ''price'', ''category''}. body req f = JUndefined \<longrightarrow>
        create_product E st req
          = (respond 400 False ''Please provide name, description, price, and category'' NoData, st))"
proof -
  let ?R = "(respond 400 False ''Please provide name, description, price, and category'' NoData, st)"
  have falsy: "create_product E st req = ?R"
    if "f \<in> {''name'', ''description'', ''price'', ''category''}" and "\<not> truthy (body req f)" for f
    using that by (rule create_product_falsy)
  have forth: "\<exists>f \<in> {''name'', ''description'', ''price'', ''category''}. \<not> truthy (body req f)"
    if "create_product E st req = ?R"
  proof (rule ccontr)
    assume "\<not> (\<exists>f \<in> {''name'', ''description'', ''price'', ''category''}. \<not> truthy (body req f))"
    then have "\<forall>f \<in> {''name'', ''description'', ''price'', ''category''}. truthy (body req f)"
      by blast
    then have "status (fst (create_product E st req)) \<noteq> 400"
      by (simp only: create_product_truthy) (simp add: respond_def)
    with that show False by (simp add: respond_def)
  qed
  have price0: "create_product E st req = ?R" if "body req ''price'' = JNum (Fin 0)"
    using falsy [of "''price''"] that by simp
  have empty: "create_product E st req = ?R"
    if "f \<in> {''name'', ''description'', ''category''}" and "body req f = JStr []" for f
    using falsy [of f] that by auto
  have absent: "create_product E st req = ?R"
    if "f \<in> {''name'', ''description'', ''price'', ''category''}" and "body req f = JUndefined" for f
    using falsy [of f] that by simp
  show ?thesis
    using falsy forth price0 empty absent by blast
qed


theorem create_rejects_falsy_witness:
  "body (sample_request (Some admin) []
           [(''name'', JStr ''Flyer''), (''description'', JStr ''A free flyer''),
            (''price'', JNum (Fin 0)), (''category'', JStr ''Other'')] []) ''price'' = JNum (Fin 0)
   \<and> create_product sample_env sample_store
        (sample_request (Some admin) []
           [(''name'', JStr ''Flyer''), (''description'', JStr ''A free flyer''),
            (''price'', JNum (Fin 0)), (''category'', JStr ''Other'')] [])
      = (respond 400 False ''Please provide name, description, price, and category'' NoData,
         sample_store)
   \<and> body (sample_request (Some admin) []
           [(''name'', JStr []), (''description'', JStr ''A free flyer''),
            (''price'', JNum (Fin 2)), (''category'', JStr ''Other'')] []) ''name'' = JStr []
   \<and> create_product sample_env sample_store
        (sample_request (Some admin) []
           [(''name'', JStr []), (''description'', JStr ''A free flyer''),
            (''price'', JNum (Fin 2)), (''category'', JStr ''Other'')] [])
      = (respond 400 False ''Please provide name, description, price, and category'' NoData,
         sample_store)"
proof -
  let ?free = "sample_request (Some admin) []
           [(''name'', JStr ''Flyer''), (''description'', JStr ''A free flyer''),
            (''price'', JNum (Fin 0)), (''category'', JStr ''Other'')] []"
  let ?anon = "sample_request (Some admin) []
           [(''name'', JStr []), (''description'', JStr ''A free flyer''),
            (''price'', JNum (Fin 2)), (''category'', JStr ''Other'')] []"
  have p0: "body ?free ''price'' = JNum (Fin 0)"
    by (simp add: sample_request_def fields_def)
  have n0: "body ?anon ''name'' = JStr []"
    by (simp add: sample_request_def fields_def)
  have 1: "create_product sample_env sample_store ?free
      = (respond 400 False ''Please provide name, description, price, and category'' NoData,
         sample_store)"
    using create_rejects_falsy [of sample_env sample_store ?free,
        THEN conjunct2, THEN conjunct1] p0 by (rule mp)
  have "''name'' \<in> {''name'', ''description'', ''category''}" by simp
  with n0 have 2: "create_product sample_env sample_store ?anon
      = (respond 400 False ''Please provide name, description, price, and category'' NoData,
         sample_store)"
    using create_rejects_falsy [of sample_env sample_store ?anon,
        THEN conjunct2, THEN conjunct2, THEN conjunct1] by blast
  show ?thesis using p0 n0 1 2 by (intro conjI)
qed

subsection \<open>Listing products\<close>


















subsection \<open>Updating a product\<close>











section \<open>Properties of the cart routes\<close>

subsection \<open>Auxiliary facts\<close>

lemma store_carts_same: "carts st k = Some v \<Longrightarrow> st\<lparr>carts := (carts st)(k \<mapsto> v)\<rparr> = st"
  by (simp add: map_upd_triv)

lemma populate_carts: "populate (st\<lparr>carts := c\<rparr>) its = populate st its"
  by (simp add: populate_def)

lemma findIndex_None_iff: "findIndex P xs = None \<longleftrightarrow> (\<forall>x \<in> set xs. \<not> P x)"
  by (induction xs) auto



subsection \<open>Adding to a cart\<close>





subsection \<open>Removing a line item\<close>

lemma remove_from_cart_saved:
  assumes "truthy (body req ''productId'')" and "req_user req = Some u"
    and "carts st (user_id u) = Some its"
    and "list_all (\<lambda>i. quantity_valid E (quantity i)) its"
  shows "remove_from_cart E st req =
     (respond 200 True ''Item removed from cart successfully''
        (CartData (user_id u)
           (populate st (filter (\<lambda>item. JStr (product_ref item) \<noteq> body req ''productId'') its))),
      st\<lparr>carts := (carts st)(user_id u \<mapsto>
             filter (\<lambda>item. JStr (product_ref item) \<noteq> body req ''productId'') its)\<rparr>)"
proof -
  have "list_all (\<lambda>i. quantity_valid E (quantity i))
          (filter (\<lambda>item. JStr (product_ref item) \<noteq> body req ''productId'') its)"
    using assms(4) by (simp add: list_all_iff)
  with assms(1-3) show ?thesis
    by (simp add: remove_from_cart_def save_cart_def Let_def populate_carts)
qed

text \<open>
  Claim C5. Removal answers 400 and changes nothing when \<^verbatim>\<open>productId\<close> is missing, and
  404 and changes nothing when the caller has no cart. For a caller with a cart (whose
  stored quantities pass the cart schema) it answers 200 and the cart holds, in their
  order, exactly the line items that do not refer to \<^verbatim>\<open>productId\<close>: every matching item
  is gone and every other item is kept. When no item matches, the store is unchanged.
\<close>

theorem remove_from_cart_filter:
  "(\<not> truthy (body req ''productId'') \<longrightarrow>
      remove_from_cart E st req = (respond 400 False ''Product ID is required'' NoData, st))
   \<and> (truthy (body req ''productId'') \<and> req_user req = Some u \<and> carts st (user_id u) = None \<longrightarrow>
        remove_from_cart E st req = (respond 404 False ''Cart not found'' NoData, st))
   \<and> (truthy (body req ''productId'') \<and> req_user req = Some u \<and> carts st (user_id u) = Some its
        \<and> list_all (\<lambda>i. quantity_valid E (quantity i)) its \<longrightarrow>
        status (fst (remove_from_cart E st req)) = 200
        \<and> success (fst (remove_from_cart E st req))
        \<and> products (snd (remove_from_cart E st req)) = products st
        \<and> carts (snd (remove_from_cart E st req))
            = (carts st)(user_id u \<mapsto>
                 filter (\<lambda>item. JStr (product_ref item) \<noteq> body req ''productId'') its)
        \<and> ((\<forall>item \<in> set its. JStr (product_ref item) \<noteq> body req ''productId'') \<longrightarrow>
              snd (remove_from_cart E st req) = st))"
proof (intro conjI impI)
  assume "\<not> truthy (body req ''productId'')"
  then show "remove_from_cart E st req = (respond 400 False ''Product ID is required'' NoData, st)"
    by (simp add: remove_from_cart_def Let_def)
next
  assume "truthy (body req ''productId'') \<and> req_user req = Some u \<and> carts st (user_id u) = None"
  then show "remove_from_cart E st req = (respond 404 False ''Cart not found'' NoData, st)"
    by (simp add: remove_from_cart_def Let_def)
next
  assume a: "truthy (body req ''productId'') \<and> req_user req = Some u
        \<and> carts st (user_id u) = Some its \<and> list_all (\<lambda>i. quantity_valid E (quantity i)) its"
  then have r: "remove_from_cart E st req =
     (respond 200 True ''Item removed from cart successfully''
        (CartData (user_id u)
           (populate st (filter (\<lambda>item. JStr (product_ref item) \<noteq> body req ''productId'') its))),
      st\<lparr>carts := (carts st)(user_id u \<mapsto>
             filter (\<lambda>item. JStr (product_ref item) \<noteq> body req ''productId'') its)\<rparr>)"
    by (simp add: remove_from_cart_saved)
  show "status (fst (remove_from_cart E st req)) = 200"
    and "success (fst (remove_from_cart E st req))"
    and "products (snd (remove_from_cart E st req)) = products st"
    and "carts (snd (remove_from_cart E st req))
            = (carts st)(user_id u \<mapsto>
                 filter (\<lambda>item. JStr (product_ref item) \<noteq> body req ''productId'') its)"
    by (simp_all add: r respond_def)
  assume "\<forall>item \<in> set its. JStr (product_ref item) \<noteq> body req ''productId''"
  then have "filter (\<lambda>item. JStr (product_ref item) \<noteq> body req ''productId'') its = its"
    by (simp add: filter_id_conv)
  with a show "snd (remove_from_cart E st req) = st"
    by (simp add: r store_carts_same)
qed

theorem remove_from_cart_filter_witness:
  "\<not> truthy (body (sample_request (Some shopper) [] [] []) ''productId'')
   \<and> remove_from_cart sample_env cart_store (sample_request (Some shopper) [] [] [])
       = (respond 400 False ''Product ID is required'' NoData, cart_store)
   \<and> truthy (body (sample_request (Some shopper) [] [(''productId'', JStr ''p2'')] []) ''productId'')
   \<and> carts sample_store (user_id shopper) = None
   \<and> remove_from_cart sample_env sample_store
        (sample_request (Some shopper) [] [(''productId'', JStr ''p2'')] [])
       = (respond 404 False ''Cart not found'' NoData, sample_store)
   \<and> carts cart_store (user_id shopper) = Some [\<lparr>product_ref = ''p1'', quantity = Fin 3\<rparr>]
   \<and> list_all (\<lambda>i. quantity_valid sample_env (quantity i)) [\<lparr>product_ref = ''p1'', quantity = Fin 3\<rparr>]
   \<and> status (fst (remove_from_cart sample_env cart_store
        (sample_request (Some shopper) [] [(''productId'', JStr ''p2'')] []))) = 200
   \<and> snd (remove_from_cart sample_env cart_store
        (sample_request (Some shopper) [] [(''productId'', JStr ''p2'')] [])) = cart_store
   \<and> carts (snd (remove_from_cart sample_env cart_store
        (sample_request (Some shopper) [] [(''productId'', JStr ''p1'')] []))) (user_id shopper)
       = Some []"
proof -
  let ?none = "sample_request (Some shopper) [] [] []"
  let ?p2 = "sample_request (Some shopper) [] [(''productId'', JStr ''p2'')] []"
  let ?p1 = "sample_request (Some shopper) [] [(''productId'', JStr ''p1'')] []"
  let ?its = "[\<lparr>product_ref = ''p1'', quantity = Fin 3\<rparr>]"
  have n: "\<not> truthy (body ?none ''productId'')"
    and t2: "truthy (body ?p2 ''productId'')" and t1: "truthy (body ?p1 ''productId'')"
    and b2: "body ?p2 ''productId'' = JStr ''p2''" and b1: "body ?p1 ''productId'' = JStr ''p1''"
    and u: "req_user ?p2 = Some shopper" "req_user ?p1 = Some shopper"
    by (simp_all add: sample_request_def fields_def)
  have c0: "carts sample_store (user_id shopper) = None"
    and c1: "carts cart_store (user_id shopper) = Some ?its"
    by (simp_all add: sample_store_def cart_store_def shopper_def)
  have v: "list_all (\<lambda>i. quantity_valid sample_env (quantity i)) ?its"
    by (simp add: sample_env_def positive_integer_def)
  have 1: "remove_from_cart sample_env cart_store ?none
       = (respond 400 False ''Product ID is required'' NoData, cart_store)"
    using remove_from_cart_filter [of ?none sample_env cart_store, THEN conjunct1] n by (rule mp)
  have 2: "remove_from_cart sample_env sample_store ?p2
       = (respond 404 False ''Cart not found'' NoData, sample_store)"
    using remove_from_cart_filter [of ?p2 sample_env sample_store shopper,
        THEN conjunct2, THEN conjunct1] t2 u(1) c0 by blast
  note g2 = remove_from_cart_filter [of ?p2 sample_env cart_store shopper ?its,
        THEN conjunct2, THEN conjunct2, THEN mp, OF conjI [OF t2 conjI [OF u(1) conjI [OF c1 v]]]]
  note g1 = remove_from_cart_filter [of ?p1 sample_env cart_store shopper ?its,
        THEN conjunct2, THEN conjunct2, THEN mp, OF conjI [OF t1 conjI [OF u(2) conjI [OF c1 v]]]]
  have 3: "status (fst (remove_from_cart sample_env cart_store ?p2)) = 200"
    using g2 by (elim conjE)
  have "\<forall>item \<in> set ?its. JStr (product_ref item) \<noteq> body ?p2 ''productId''"
    by (simp add: b2)
  with g2 have 4: "snd (remove_from_cart sample_env cart_store ?p2) = cart_store"
    by (elim conjE) (rule mp)
  have "carts (snd (remove_from_cart sample_env cart_store ?p1))
            = (carts cart_store)(user_id shopper \<mapsto>
                 filter (\<lambda>item. JStr (product_ref item) \<noteq> body ?p1 ''productId'') ?its)"
    using g1 by (elim conjE)
  then have 5: "carts (snd (remove_from_cart sample_env cart_store ?p1)) (user_id shopper) = Some []"
    by (simp add: b1)
  from n 1 t2 c0 2 c1 v 3 4 5 show ?thesis by (intro conjI)
qed

subsection \<open>Updating a quantity\<close>

lemma update_cart_checked:
  assumes "truthy (body req ''productId'')" and "truthy (body req ''quantity'')"
    and "\<not> js_lt (to_number (body req ''quantity'')) (Fin 1)"
    and "findById E st (body req ''productId'') = Inr (Some product)"
    and "\<not> js_lt (stock product) (to_number (body req ''quantity''))"
    and "req_user req = Some u" and "carts st (user_id u) = Some its"
  shows "update_cart E st req =
     (case findIndex (\<lambda>item. JStr (product_ref item) = body req ''productId'') its of
        None \<Rightarrow> (respond 404 False ''Item not found in cart'' NoData, st)
      | Some k \<Rightarrow>
          if list_all (\<lambda>i. quantity_valid E (quantity i))
               (set_quantity its k (to_number (body req ''quantity'')))
          then (respond 200 True ''Cart updated successfully''
                  (CartData (user_id u)
                     (populate st (set_quantity its k (to_number (body req ''quantity''))))),
                st\<lparr>carts := (carts st)(user_id u \<mapsto>
                       set_quantity its k (to_number (body req ''quantity'')))\<rparr>)
          else (respond 500 False ''Server error while updating cart'' NoData, st))"
  using assms
  by (simp add: update_cart_def Let_def save_cart_def populate_carts split: option.split)

text \<open>
  Claim C3. Updating a quantity answers 400 and changes nothing when \<^verbatim>\<open>productId\<close> or
  \<^verbatim>\<open>quantity\<close> is missing (falsy) and when the quantity is below \<open>1\<close>; 404, or 500
  for a value that is no identifier, when the product does not resolve; 400 when the
  quantity exceeds the product's stock; 404 when the caller has no cart; and 404, with
  the store unchanged and no line item created, when the cart has no line item for the
  product, although the product exists and its stock suffices. Otherwise, when the new
  quantity passes the cart schema, it answers 200 and the first line item for the
  product, and only that one, carries \<^verbatim>\<open>Number(quantity)\<close>.
\<close>

theorem update_cart_overwrites:
  "(\<not> truthy (body req ''productId'') \<or> \<not> truthy (body req ''quantity'') \<longrightarrow>
      update_cart E st req
        = (respond 400 False ''Product ID and quantity are required'' NoData, st))
   \<and> (truthy (body req ''productId'') \<and> truthy (body req ''quantity'') \<longrightarrow>
       (js_lt (to_number (body req ''quantity'')) (Fin 1) \<longrightarrow>
          update_cart E st req = (respond 400 False ''Quantity must be at least 1'' NoData, st))
       \<and> (\<not> js_lt (to_number (body req ''quantity'')) (Fin 1) \<longrightarrow>
           (findById E st (body req ''productId'') = Inr None \<longrightarrow>
              update_cart E st req = (respond 404 False ''Product not found'' NoData, st))
           \<and> (findById E st (body req ''productId'') = Inl CastError \<longrightarrow>
              update_cart E st req
                = (respond 500 False ''Server error while updating cart'' NoData, st))
           \<and> (\<forall>product. findById E st (body req ''productId'') = Inr (Some product) \<longrightarrow>
               (js_lt (stock product) (to_number (body req ''quantity'')) \<longrightarrow>
                  update_cart E st req
                    = (respond 400 False ''Insufficient stock available'' NoData, st))
               \<and> (\<not> js_lt (stock product) (to_number (body req ''quantity''))
                    \<and> req_user req = Some u \<longrightarrow>
                   (carts st (user_id u) = None \<longrightarrow>
                      update_cart E st req = (respond 404 False ''Cart not found'' NoData, st))
                   \<and> (\<forall>its. carts st (user_id u) = Some its \<longrightarrow>
                       ((\<forall>item \<in> set its. JStr (product_ref item) \<noteq> body req ''productId'') \<longrightarrow>
                          update_cart E st req
                            = (respond 404 False ''Item not found in cart'' NoData, st))
                       \<and> (\<forall>k. findIndex (\<lambda>item. JStr (product_ref item) = body req ''productId'') its
                                 = Some k
                               \<and> list_all (\<lambda>i. quantity_valid E (quantity i))
                                   (its[k := (its ! k)\<lparr>quantity := to_number (body req ''quantity'')\<rparr>])
                               \<longrightarrow>
                             status (fst (update_cart E st req)) = 200
                             \<and> products (snd (update_cart E st req)) = products st
                             \<and> carts (snd (update_cart E st req))
                                 = (carts st)(user_id u \<mapsto>
                                      its[k := (its ! k)\<lparr>quantity :=
                                                to_number (body req ''quantity'')\<rparr>])))))))"
proof (intro conjI impI allI)
  assume "\<not> truthy (body req ''productId'') \<or> \<not> truthy (body req ''quantity'')"
  then show "update_cart E st req
        = (respond 400 False ''Product ID and quantity are required'' NoData, st)"
    by (auto simp: update_cart_def Let_def)
next
  assume "truthy (body req ''productId'') \<and> truthy (body req ''quantity'')"
    and "js_lt (to_number (body req ''quantity'')) (Fin 1)"
  then show "update_cart E st req = (respond 400 False ''Quantity must be at least 1'' NoData, st)"
    by (simp add: update_cart_def Let_def)
next
  assume "truthy (body req ''productId'') \<and> truthy (body req ''quantity'')"
    and "\<not> js_lt (to_number (body req ''quantity'')) (Fin 1)"
    and "findById E st (body req ''productId'') = Inr None"
  then show "update_cart E st req = (respond 404 False ''Product not found'' NoData, st)"
    by (simp add: update_cart_def Let_def)
next
  assume "truthy (body req ''productId'') \<and> truthy (body req ''quantity'')"
    and "\<not> js_lt (to_number (body req ''quantity'')) (Fin 1)"
    and "findById E st (body req ''productId'') = Inl CastError"
  then show "update_cart E st req
                = (respond 500 False ''Server error while updating cart'' NoData, st)"
    by (simp add: update_cart_def Let_def)
next
  fix product
  assume "truthy (body req ''productId'') \<and> truthy (body req ''quantity'')"
    and "\<not> js_lt (to_number (body req ''quantity'')) (Fin 1)"
    and "findById E st (body req ''productId'') = Inr (Some product)"
    and "js_lt (stock product) (to_number (body req ''quantity''))"
  then show "update_cart E st req
                    = (respond 400 False ''Insufficient stock available'' NoData, st)"
    by (simp add: update_cart_def Let_def)
next
  fix product
  assume "truthy (body req ''productId'') \<and> truthy (body req ''quantity'')"
    and "\<not> js_lt (to_number (body req ''quantity'')) (Fin 1)"
    and "findById E st (body req ''productId'') = Inr (Some product)"
    and "\<not> js_lt (stock product) (to_number (body req ''quantity'')) \<and> req_user req = Some u"
    and "carts st (user_id u) = None"
  then show "update_cart E st req = (respond 404 False ''Cart not found'' NoData, st)"
    by (simp add: update_cart_def Let_def)
next
  fix product its
  assume a: "truthy (body req ''productId'') \<and> truthy (body req ''quantity'')"
    "\<not> js_lt (to_number (body req ''quantity'')) (Fin 1)"
    "findById E st (body req ''productId'') = Inr (Some product)"
    "\<not> js_lt (stock product) (to_number (body req ''quantity'')) \<and> req_user req = Some u"
    "carts st (user_id u) = Some its"
  note r = update_cart_checked [OF conjunct1 [OF a(1)] conjunct2 [OF a(1)] a(2) a(3)
      conjunct1 [OF a(4)] conjunct2 [OF a(4)] a(5)]
  { assume "\<forall>item \<in> set its. JStr (product_ref item) \<noteq> body req ''productId''"
    then have "findIndex (\<lambda>item. JStr (product_ref item) = body req ''productId'') its = None"
      by (simp add: findIndex_None_iff)
    then show "update_cart E st req = (respond 404 False ''Item not found in cart'' NoData, st)"
      by (simp add: r) }
  { fix k
    assume "findIndex (\<lambda>item. JStr (product_ref item) = body req ''productId'') its = Some k
            \<and> list_all (\<lambda>i. quantity_valid E (quantity i))
                 (its[k := (its ! k)\<lparr>quantity := to_number (body req ''quantity'')\<rparr>])"
    then have "update_cart E st req =
        (respond 200 True ''Cart updated successfully''
                  (CartData (user_id u)
                     (populate st (set_quantity its k (to_number (body req ''quantity''))))),
                st\<lparr>carts := (carts st)(user_id u \<mapsto>
                       set_quantity its k (to_number (body req ''quantity'')))\<rparr>)"
      by (simp add: r set_quantity_def)
    then show "status (fst (update_cart E st req)) = 200"
      and "products (snd (update_cart E st req)) = products st"
      and "carts (snd (update_cart E st req))
             = (carts st)(user_id u \<mapsto>
                  its[k := (its ! k)\<lparr>quantity := to_number (body req ''quantity'')\<rparr>])"
      by (simp_all add: respond_def set_quantity_def) }
qed


theorem update_cart_overwrites_witness:
  "findById sample_env cart_store (JStr ''p2'') = Inr (Some novel)
   \<and> \<not> js_lt (stock novel) (Fin 2)
   \<and> carts cart_store (user_id shopper) = Some [\<lparr>product_ref = ''p1'', quantity = Fin 3\<rparr>]
   \<and> update_cart sample_env cart_store
        (sample_request (Some shopper) [] [(''productId'', JStr ''p2''), (''quantity'', JNum (Fin 2))] [])
       = (respond 404 False ''Item not found in cart'' NoData, cart_store)
   \<and> findIndex (\<lambda>item. JStr (product_ref item) = JStr ''p1'')
         [\<lparr>product_ref = ''p1'', quantity = Fin 3\<rparr>] = Some 0
   \<and> status (fst (update_cart sample_env cart_store
        (sample_request (Some shopper) [] [(''productId'', JStr ''p1''), (''quantity'', JNum (Fin 5))] [])))
       = 200
   \<and> carts (snd (update_cart sample_env cart_store
        (sample_request (Some shopper) [] [(''productId'', JStr ''p1''), (''quantity'', JNum (Fin 5))] [])))
        (user_id shopper) = Some [\<lparr>product_ref = ''p1'', quantity = Fin 5\<rparr>]
   \<and> update_cart sample_env cart_store
        (sample_request (Some shopper) [] [(''productId'', JStr ''p1''), (''quantity'', JNum (Fin 6))] [])
       = (respond 400 False ''Insufficient stock available'' NoData, cart_store)
   \<and> update_cart sample_env cart_store
        (sample_request (Some shopper) [] [(''productId'', JStr ''p1''), (''quantity'', JNum (Fin 0))] [])
       = (respond 400 False ''Product ID and quantity are required'' NoData, cart_store)"
proof -
  let ?its = "[\<lparr>product_ref = ''p1'', quantity = Fin 3\<rparr>]"
  let ?p2 = "sample_request (Some shopper) []
               [(''productId'', JStr ''p2''), (''quantity'', JNum (Fin 2))] []"
  let ?p1 = "sample_request (Some shopper) []
               [(''productId'', JStr ''p1''), (''quantity'', JNum (Fin 5))] []"
  let ?six = "sample_request (Some shopper) []
               [(''productId'', JStr ''p1''), (''quantity'', JNum (Fin 6))] []"
  let ?zero = "sample_request (Some shopper) []
               [(''productId'', JStr ''p1''), (''quantity'', JNum (Fin 0))] []"
  have b2: "body ?p2 ''productId'' = JStr ''p2''" "body ?p2 ''quantity'' = JNum (Fin 2)"
    and b1: "body ?p1 ''productId'' = JStr ''p1''" "body ?p1 ''quantity'' = JNum (Fin 5)"
    and b6: "body ?six ''productId'' = JStr ''p1''" "body ?six ''quantity'' = JNum (Fin 6)"
    and b0: "body ?zero ''quantity'' = JNum (Fin 0)"
    and u: "req_user ?p2 = Some shopper" "req_user ?p1 = Some shopper"
    by (simp_all add: sample_request_def fields_def)
  have f2: "findById sample_env cart_store (JStr ''p2'') = Inr (Some novel)"
    and f1: "findById sample_env cart_store (JStr ''p1'') = Inr (Some lamp)"
    by (simp_all add: sample_defs findById_def)
  have s2: "\<not> js_lt (stock novel) (Fin 2)" and s1: "\<not> js_lt (stock lamp) (Fin 5)"
    and s6: "js_lt (stock lamp) (Fin 6)"
    by (simp_all add: novel_def lamp_def)
  have c: "carts cart_store (user_id shopper) = Some ?its"
    by (simp add: cart_store_def shopper_def)
  have k: "findIndex (\<lambda>item. JStr (product_ref item) = JStr ''p1'') ?its = Some 0"
    by simp
  have v: "list_all (\<lambda>i. quantity_valid sample_env (quantity i))
             (?its[0 := (?its ! 0)\<lparr>quantity := Fin 5\<rparr>])"
    by (simp add: sample_env_def positive_integer_def)
  have 1: "update_cart sample_env cart_store ?p2
       = (respond 404 False ''Item not found in cart'' NoData, cart_store)"
    using update_cart_overwrites [of ?p2 sample_env cart_store shopper] f2 s2 c u(1)
    by (simp add: b2)
  have 2: "status (fst (update_cart sample_env cart_store ?p1)) = 200
           \<and> carts (snd (update_cart sample_env cart_store ?p1))
               = (carts cart_store)(user_id shopper \<mapsto> ?its[0 := (?its ! 0)\<lparr>quantity := Fin 5\<rparr>])"
    using update_cart_overwrites [of ?p1 sample_env cart_store shopper] f1 s1 c u(2) k v
    by (simp add: b1)
  have 3: "update_cart sample_env cart_store ?six
       = (respond 400 False ''Insufficient stock available'' NoData, cart_store)"
    using update_cart_overwrites [of ?six sample_env cart_store shopper] f1 s6
    by (simp add: b6)
  have 4: "update_cart sample_env cart_store ?zero
       = (respond 400 False ''Product ID and quantity are required'' NoData, cart_store)"
    using update_cart_overwrites [of ?zero sample_env cart_store shopper, THEN conjunct1]
    by (simp add: b0)
  from 2 have 5: "carts (snd (update_cart sample_env cart_store ?p1)) (user_id shopper)
       = Some [\<lparr>product_ref = ''p1'', quantity = Fin 5\<rparr>]"
    by simp
  from f2 s2 c 1 k 2 5 3 4 show ?thesis by (intro conjI) simp_all
qed

subsection \<open>Clearing a cart\<close>

lemma clear_cart_absent:
  "req_user req = Some u \<Longrightarrow> carts st (user_id u) = None \<Longrightarrow>
   clear_cart E st req = (respond 404 False ''Cart not found'' NoData, st)"
  by (simp add: clear_cart_def)

lemma clear_cart_present:
  "req_user req = Some u \<Longrightarrow> carts st (user_id u) = Some its \<Longrightarrow>
   clear_cart E st req =
     (respond 200 True ''Cart cleared successfully'' (CartData (user_id u) []),
      st\<lparr>carts := (carts st)(user_id u \<mapsto> [])\<rparr>)"
  by (simp add: clear_cart_def save_cart_def)

text \<open>
  Claim C6. For an authenticated caller, clearing fails with 404 and changes nothing
  when the caller has no cart. When the caller has a cart, clearing succeeds (200), the
  cart stays in the store with an empty sequence of line items, nothing else changes,
  and clearing again gives the same successful response and the same store.
\<close>

theorem clear_cart_idempotent:
  "req_user req = Some u \<Longrightarrow>
   (carts st (user_id u) = None \<longrightarrow>
      clear_cart E st req = (respond 404 False ''Cart not found'' NoData, st))
   \<and> (carts st (user_id u) \<noteq> None \<longrightarrow>
        status (fst (clear_cart E st req)) = 200
        \<and> success (fst (clear_cart E st req))
        \<and> carts (snd (clear_cart E st req)) = (carts st)(user_id u \<mapsto> [])
        \<and> products (snd (clear_cart E st req)) = products st
        \<and> clear_cart E (snd (clear_cart E st req)) req = clear_cart E st req)"
proof (cases "carts st (user_id u)")
  case None
  assume "req_user req = Some u"
  with None show ?thesis by (simp add: clear_cart_absent)
next
  case (Some its)
  assume u: "req_user req = Some u"
  let ?st1 = "st\<lparr>carts := (carts st)(user_id u \<mapsto> [])\<rparr>"
  have 1: "clear_cart E st req =
     (respond 200 True ''Cart cleared successfully'' (CartData (user_id u) []), ?st1)"
    using u Some by (rule clear_cart_present)
  have "carts ?st1 (user_id u) = Some []" by simp
  with u have 2: "clear_cart E ?st1 req =
     (respond 200 True ''Cart cleared successfully'' (CartData (user_id u) []),
      ?st1\<lparr>carts := (carts ?st1)(user_id u \<mapsto> [])\<rparr>)"
    by (rule clear_cart_present)
  show ?thesis using Some by (simp add: 1 2 respond_def)
qed

theorem clear_cart_idempotent_witness:
  "req_user (sample_request (Some shopper) [] [] []) = Some shopper
   \<and> carts sample_store (user_id shopper) = None
   \<and> status (fst (clear_cart sample_env sample_store (sample_request (Some shopper) [] [] []))) = 404
   \<and> carts cart_store (user_id shopper) = Some [\<lparr>product_ref = ''p1'', quantity = Fin 3\<rparr>]
   \<and> status (fst (clear_cart sample_env cart_store (sample_request (Some shopper) [] [] []))) = 200
   \<and> carts (snd (clear_cart sample_env cart_store (sample_request (Some shopper) [] [] [])))
        (user_id shopper) = Some []
   \<and> status (fst (clear_cart sample_env
          (snd (clear_cart sample_env cart_store (sample_request (Some shopper) [] [] [])))
          (sample_request (Some shopper) [] [] []))) = 200"
  using clear_cart_idempotent [of "sample_request (Some shopper) [] [] []" shopper sample_store sample_env]
    clear_cart_idempotent [of "sample_request (Some shopper) [] [] []" shopper cart_store sample_env]
  by (simp add: sample_defs respond_def)

end
